theory Spec2Isabelle
  imports Main "HOL-Library.Word"
begin

section \<open>The UART to I2C bridge: data model\<close>

text \<open>
  The development embeds the command loop of \<^verbatim>\<open>uart_to_ftdi_i2c.py\<close> (function
  \<^verbatim>\<open>main\<close>, from the \<^verbatim>\<open>with\<close> statement on), the class \<^verbatim>\<open>FtdiI2C\<close> of
  \<^verbatim>\<open>pylibmpsse_i2c/__init__.py\<close> and the functions \<^verbatim>\<open>_check_ftdi_status\<close>,
  \<^verbatim>\<open>write_device\<close>, \<^verbatim>\<open>read_device\<close> and \<^verbatim>\<open>close_channel\<close> of
  \<^verbatim>\<open>pylibmpsse_i2c/ctypes_veneer.py\<close>.

  The two transports are outside the repository (pyserial and libmpsse.dll), so they are
  parameters of the model: every \<^verbatim>\<open>uart.read\<close> takes its outcome from a script, and
  every call into the DLL takes its status and transfer count from an oracle.
\<close>

type_synonym byte = "8 word"

text \<open>The exceptions that can travel through the loop.\<close>

datatype exn =
    KeyboardInterrupt
  | ValueError
  | UnboundLocalError
  | TypeError
  | AssertionError
  | FtdiError int

text \<open>
  What the outside world sees, in order: the calls into the DLL with their arguments, the
  bytes handed to \<^verbatim>\<open>uart.write\<close>, the closing of the serial port and the integer that
  \<^verbatim>\<open>logger.debug\<close> formats into its message.
\<close>

datatype effect =
    DeviceWrite nat nat nat "byte list" nat
  | CloseChannel nat
  | SerialWrite "byte list"
  | SerialClose
  | LogDebug nat

text \<open>
  The DLL. \<open>I2C_DeviceWrite\<close> gets the effects so far and the arguments of the call
  (handle, device address, size, buffer, options) and answers with the status and the
  number of bytes transferred; \<open>I2C_CloseChannel\<close> answers with a status.
\<close>

record dll =
  I2C_DeviceWrite :: "effect list \<Rightarrow> nat \<Rightarrow> nat \<Rightarrow> nat \<Rightarrow> byte list \<Rightarrow> nat \<Rightarrow> int \<times> nat"
  I2C_CloseChannel :: "effect list \<Rightarrow> nat \<Rightarrow> int"

text \<open>
  One outcome of \<^verbatim>\<open>uart.read(n)\<close>: the bytes it returned, or a
  \<^verbatim>\<open>KeyboardInterrupt\<close> raised while the read was blocked. pyserial's \<^verbatim>\<open>read\<close> does
  not raise when the timeout runs out: it returns the bytes that came in time, fewer
  than \<open>n\<close> and possibly none.
\<close>

datatype rx = Bytes "byte list" | CtrlC

section \<open>ctypes\_veneer.py\<close>

text \<open>
  \<^verbatim>\<open>_check_ftdi_status\<close>: \<^verbatim>\<open>FT_Status(status)\<close> raises ValueError outside 0..18, and
  every status but \<^verbatim>\<open>FT_OK\<close> raises FtdiError.
\<close>

definition check_ftdi_status :: "int \<Rightarrow> exn + unit" where
  "check_ftdi_status status =
     (if status < 0 \<or> 18 < status then Inl ValueError
      else if status \<noteq> 0 then Inl (FtdiError status)
      else Inr ())"

text \<open>The options word of \<^verbatim>\<open>write_device\<close>: \<^verbatim>\<open>start + 2 * stop + (1 << 4)\<close>.\<close>

definition write_options :: "bool \<Rightarrow> bool \<Rightarrow> nat" where
  "write_options start stop = of_bool start + 2 * of_bool stop + push_bit 4 1"

definition write_device ::
  "dll \<Rightarrow> nat \<Rightarrow> nat \<Rightarrow> byte list \<Rightarrow> bool \<Rightarrow> bool \<Rightarrow> effect list \<Rightarrow> (exn + unit) \<times> effect list"
where
  "write_device d handle device_address bytes_to_write start stop tr =
     (let options = write_options start stop;
          (status, size_transferred) =
             I2C_DeviceWrite d tr handle device_address (length bytes_to_write) bytes_to_write options;
          tr' = tr @ [DeviceWrite handle device_address (length bytes_to_write) bytes_to_write options]
      in case check_ftdi_status status of
           Inl e \<Rightarrow> (Inl e, tr')
         | Inr _ \<Rightarrow>
             if size_transferred = length bytes_to_write then (Inr (), tr')
             else (Inl AssertionError, tr'))"


text \<open>
  \<^verbatim>\<open>read_device\<close>. The buffer is a \<^verbatim>\<open>c_char_p\<close> set to \<^verbatim>\<open>bytes(bytes_to_read)\<close>, that
  is \<open>bytes_to_read\<close> zero bytes. The DLL call (the parameter \<open>I2C_DeviceRead\<close>, given
  handle, address, size and options) answers with its status, the count it reports and
  the bytes it stored from the start of the buffer. Reading \<^verbatim>\<open>buffer.value\<close> back gives
  the C string at the buffer: the bytes before the first NUL.
\<close>

definition read_options :: "bool \<Rightarrow> bool \<Rightarrow> nat" where
  "read_options start stop = of_bool start + 2 * of_bool stop + push_bit 4 0"

definition store :: "byte list \<Rightarrow> byte list \<Rightarrow> byte list" where
  "store buffer written = take (length buffer) (written @ drop (length written) buffer)"

definition c_char_p_value :: "byte list \<Rightarrow> byte list" where
  "c_char_p_value buffer = takeWhile (\<lambda>b. b \<noteq> 0) buffer"

definition read_device ::
  "(nat \<Rightarrow> nat \<Rightarrow> nat \<Rightarrow> nat \<Rightarrow> int \<times> nat \<times> byte list) \<Rightarrow> nat \<Rightarrow> nat \<Rightarrow> nat \<Rightarrow> bool \<Rightarrow> bool
     \<Rightarrow> exn + byte list"
where
  "read_device I2C_DeviceRead handle device_address bytes_to_read start stop =
     (let buffer = replicate bytes_to_read (0 :: byte);
          options = read_options start stop;
          (status, size_transferred, written) =
             I2C_DeviceRead handle device_address bytes_to_read options;
          buffer' = store buffer written
      in case check_ftdi_status status of
           Inl e \<Rightarrow> Inl e
         | Inr _ \<Rightarrow>
             if size_transferred = bytes_to_read then Inr (c_char_p_value buffer')
             else Inl AssertionError)"

section \<open>The class FtdiI2C\<close>

text \<open>\<^verbatim>\<open>FtdiI2C.write\<close> hands its arguments to \<^verbatim>\<open>write_device\<close>.\<close>

definition FtdiI2C_write ::
  "dll \<Rightarrow> nat \<Rightarrow> nat \<Rightarrow> byte list \<Rightarrow> bool \<Rightarrow> bool \<Rightarrow> effect list \<Rightarrow> (exn + unit) \<times> effect list"
where
  "FtdiI2C_write d self_hi2c address data start stop tr =
     write_device d self_hi2c address data start stop tr"

text \<open>
  \<^verbatim>\<open>FtdiI2C.read\<close> has the single statement \<^verbatim>\<open>return\<close>: it calls nothing and its value
  is \<^verbatim>\<open>None\<close>.
\<close>

definition FtdiI2C_read :: "nat \<Rightarrow> nat \<Rightarrow> nat \<Rightarrow> bool \<Rightarrow> byte list option" where
  "FtdiI2C_read self_hi2c address len stop = None"


section \<open>The command loop of main\<close>

text \<open>
  \<^verbatim>\<open>uart.write(data)\<close>: pyserial converts its argument to bytes and rejects \<^verbatim>\<open>None\<close>
  with a TypeError before anything is sent.
\<close>

definition uart_write :: "byte list option \<Rightarrow> effect list \<Rightarrow> (exn + unit) \<times> effect list" where
  "uart_write data tr =
     (case data of
        None \<Rightarrow> (Inl TypeError, tr)
      | Some bs \<Rightarrow> (Inr (), tr @ [SerialWrite bs]))"

text \<open>
  Lines 91 and 92: \<^verbatim>\<open>write = addr % 1 == 0\<close> and \<^verbatim>\<open>addr = addr // 2\<close>, on the integer
  value of the first of the two bytes.
\<close>

definition decode_addr :: "nat \<Rightarrow> bool \<times> nat" where
  "decode_addr addr = (addr mod 1 = 0, addr div 2)"

text \<open>
  The locals of \<^verbatim>\<open>main\<close> that live across iterations: the handle inside \<^verbatim>\<open>hi2c\<close>, and
  \<^verbatim>\<open>next_char\<close>, which is unbound (\<open>None\<close>) until line 102 has assigned it once.
\<close>

record st =
  hi2c :: nat
  next_char :: "nat option"
  effects :: "effect list"

text \<open>
  The loop blocks in exactly four places, the four calls of \<^verbatim>\<open>uart.read\<close>; the control
  state names the call the program is blocked in, with the locals \<^verbatim>\<open>addr\<close> and
  \<^verbatim>\<open>length\<close> where they are live:
  \<^item> \<open>Idle\<close>: line 84, \<^verbatim>\<open>uart.read(1)\<close> of the outer loop;
  \<^item> \<open>AddressPhase\<close>: line 90, \<^verbatim>\<open>uart.read(2)\<close> at the top of the inner loop;
  \<^item> \<open>WritePhase addr len\<close>: line 102, \<^verbatim>\<open>uart.read(length + 1)\<close>;
  \<^item> \<open>ReadPhase addr len\<close>: line 114, \<^verbatim>\<open>uart.read(1)\<close>;
  \<^item> \<open>Exited\<close>: the outer loop was left by the \<^verbatim>\<open>break\<close> of line 129;
  \<^item> \<open>Crashed e\<close>: the exception \<open>e\<close> left the outer \<^verbatim>\<open>try\<close>, whose only
    clause is \<^verbatim>\<open>except KeyboardInterrupt\<close>.
\<close>

datatype pc =
    Idle
  | AddressPhase
  | WritePhase nat nat
  | ReadPhase nat nat
  | Exited
  | Crashed exn

fun halted :: "pc \<Rightarrow> bool" where
  "halted Exited = True"
| "halted (Crashed e) = True"
| "halted _ = False"

text \<open>
  The timeout the code sets before each read (\<open>Forever\<close> is \<^verbatim>\<open>uart.timeout = None\<close>,
  \<open>Bounded\<close> is \<^verbatim>\<open>uart.timeout = 0.7\<close>), and the size it asks for.
\<close>

datatype timeout = Forever | Bounded

fun uart_timeout :: "pc \<Rightarrow> timeout option" where
  "uart_timeout Idle = Some Forever"
| "uart_timeout AddressPhase = Some Bounded"
| "uart_timeout (WritePhase addr len) = Some Bounded"
| "uart_timeout (ReadPhase addr len) = Some Bounded"
| "uart_timeout _ = None"

fun read_size :: "pc \<Rightarrow> nat" where
  "read_size Idle = 1"
| "read_size AddressPhase = 2"
| "read_size (WritePhase addr len) = len + 1"
| "read_size (ReadPhase addr len) = 1"
| "read_size _ = 0"

text \<open>
  The three inner \<^verbatim>\<open>try\<close> statements (lines 89, 100 and 112) have the single clause
  \<^verbatim>\<open>except serial.Timeout\<close>. In pyserial \<^verbatim>\<open>serial.Timeout\<close> is the helper class that
  counts a timeout down, not an exception class, so no exception matches it: when an
  exception of the \<^verbatim>\<open>try\<close> body reaches the clause, Python raises TypeError (a class
  that does not inherit from BaseException cannot be caught), whatever the exception
  was. The handler bodies, the \<^verbatim>\<open>continue\<close> of line 94 and the \<^verbatim>\<open>break\<close> of lines
  105 and 117, never run, and the TypeError is not caught by the outer
  \<^verbatim>\<open>except KeyboardInterrupt\<close>.

  One step: the code from the return of one \<^verbatim>\<open>uart.read\<close> to the next call of it.
  \<^item> Idle (lines 84, 85, 124, 125, 128, 129): a KeyboardInterrupt in this read is
    outside every inner \<^verbatim>\<open>try\<close> and reaches the \<^verbatim>\<open>break\<close> of line 129;
    \<^verbatim>\<open>b'S'\<close> enters the inner loop; any other value formats \<^verbatim>\<open>next_char\<close> into the
    log message, which raises UnboundLocalError while that local is unbound.
  \<^item> AddressPhase (lines 90 to 94, 98): unpacking into two names raises ValueError
    unless there are exactly two bytes; that ValueError, and a KeyboardInterrupt in the
    read, meet the clause of line 93 and end as TypeError.
  \<^item> WritePhase (lines 102 to 109, 122, 123): \<^verbatim>\<open>*data, next_char = ...\<close> raises
    ValueError on no bytes (TypeError at line 103, as is a KeyboardInterrupt in the
    read), else binds all but the last byte and the last byte;
    \<^verbatim>\<open>next_char_stop = next_char == ord('S')\<close> is the \<^verbatim>\<open>stop\<close> argument of the write
    and the condition of the \<^verbatim>\<open>break\<close>. The write of line 109 is outside the inner
    \<^verbatim>\<open>try\<close>: its exception leaves the loop as it is.
  \<^item> ReadPhase (lines 114 to 123): the comparison of line 114 cannot raise; a
    KeyboardInterrupt in the read ends as TypeError at line 115.
\<close>

fun step :: "dll \<Rightarrow> pc \<Rightarrow> rx \<Rightarrow> st \<Rightarrow> pc \<times> st" where
  "step d Exited r s = (Exited, s)"
| "step d (Crashed e) r s = (Crashed e, s)"
| "step d Idle CtrlC s = (Exited, s)"
| "step d Idle (Bytes char) s =
     (if char = [0x53] then (AddressPhase, s)
      else (case next_char s of
              None \<Rightarrow> (Crashed UnboundLocalError, s)
            | Some c \<Rightarrow> (Idle, s\<lparr>effects := effects s @ [LogDebug c]\<rparr>)))"
| "step d AddressPhase CtrlC s = (Crashed TypeError, s)"
| "step d AddressPhase (Bytes bs) s =
     (case bs of
        [a, l] \<Rightarrow>
          (let (write, addr) = decode_addr (unat a); len = unat l
           in if write then (WritePhase addr len, s) else (ReadPhase addr len, s))
      | _ \<Rightarrow> (Crashed TypeError, s))"
| "step d (WritePhase addr len) CtrlC s = (Crashed TypeError, s)"
| "step d (WritePhase addr len) (Bytes bs) s =
     (if bs = [] then (Crashed TypeError, s)
      else
        (let data = butlast bs;
             nc = unat (last bs);
             next_char_stop = (nc = 0x53);
             (r, tr) = FtdiI2C_write d (hi2c s) addr data True next_char_stop (effects s);
             s' = s\<lparr>next_char := Some nc, effects := tr\<rparr>
         in case r of
              Inl e \<Rightarrow> (Crashed e, s')
            | Inr _ \<Rightarrow> if next_char_stop then (Idle, s') else (AddressPhase, s')))"
| "step d (ReadPhase addr len) CtrlC s = (Crashed TypeError, s)"
| "step d (ReadPhase addr len) (Bytes bs) s =
     (let next_char_stop = (bs = [0x53]);
          data = FtdiI2C_read (hi2c s) addr len next_char_stop;
          (r, tr) = uart_write data (effects s);
          s' = s\<lparr>effects := tr\<rparr>
      in case r of
           Inl e \<Rightarrow> (Crashed e, s')
         | Inr _ \<Rightarrow> if next_char_stop then (Idle, s') else (AddressPhase, s'))"

text \<open>
  The loop over a script of read outcomes. When the script is used up the program is
  blocked in the read its control state names.
\<close>

fun run :: "dll \<Rightarrow> pc \<Rightarrow> rx list \<Rightarrow> st \<Rightarrow> pc \<times> st" where
  "run d p [] s = (p, s)"
| "run d p (r # rs) s =
     (if halted p then (p, s)
      else (case step d p r s of (p', s') \<Rightarrow> run d p' rs s'))"

text \<open>
  The \<^verbatim>\<open>with\<close> statement around the loop. Once the loop is left, by \<^verbatim>\<open>break\<close> or by an
  exception, the serial port is closed and then \<^verbatim>\<open>FtdiI2C.__exit__\<close> runs; an exception
  of \<^verbatim>\<open>close_channel\<close> replaces the one in flight.
\<close>

definition init :: "nat \<Rightarrow> st" where
  "init handle = \<lparr>hi2c = handle, next_char = None, effects = []\<rparr>"


text \<open>A device that answers every call with \<^verbatim>\<open>FT_OK\<close> and takes every byte.\<close>

definition dll_ok :: dll where
  "dll_ok = \<lparr>I2C_DeviceWrite = (\<lambda>tr h a n buf opts. (0, n)), I2C_CloseChannel = (\<lambda>tr h. 0)\<rparr>"

text \<open>A device that answers every write with the given status and count.\<close>

definition dll_fail :: "int \<Rightarrow> nat \<Rightarrow> dll" where
  "dll_fail status n = \<lparr>I2C_DeviceWrite = (\<lambda>tr h a m buf opts. (status, n)), I2C_CloseChannel = (\<lambda>tr h. 0)\<rparr>"

section \<open>Facts about the loop\<close>

lemma run_halted: "halted p \<Longrightarrow> run d p rs s = (p, s)"
  by (cases rs) simp_all

lemma write_device_effects:
  "snd (write_device d h a bs start stop tr) =
     tr @ [DeviceWrite h a (length bs) bs (write_options start stop)]"
  by (simp add: write_device_def Let_def split: prod.splits sum.splits)







lemma write_device_fails:
  assumes "I2C_DeviceWrite d tr h a (length bs) bs (write_options start stop) = (status, k)"
    and "status \<noteq> 0 \<or> k \<noteq> length bs"
  shows "\<exists>e. fst (write_device d h a bs start stop tr) = Inl e \<and>
             e \<in> {FtdiError status, ValueError, AssertionError}"
  using assms by (auto simp: write_device_def check_ftdi_status_def)

lemma length_store: "length (store buffer written) = length buffer"
  by (simp add: store_def)

lemma store_full: "length buffer \<le> length written \<Longrightarrow> store buffer written = take (length buffer) written"
  by (simp add: store_def)

lemma takeWhile_full_length:
  "length (takeWhile P xs) = length xs \<longleftrightarrow> (\<forall>x \<in> set xs. P x)"
proof
  assume a: "length (takeWhile P xs) = length xs"
  have "takeWhile P xs = take (length (takeWhile P xs)) xs"
    by (rule takeWhile_eq_take)
  also have "\<dots> = xs" using a by simp
  finally have "takeWhile P xs = xs" .
  then show "\<forall>x \<in> set xs. P x" by (simp only: takeWhile_eq_all_conv)
next
  assume "\<forall>x \<in> set xs. P x"
  then have "takeWhile P xs = xs" by simp
  then show "length (takeWhile P xs) = length xs" by (simp only:)
qed

section \<open>Address byte\<close>

text \<open>
  C1. The claim: the direction is Write exactly when the address byte is even, and the
  address is the byte shifted right by one. The code computes \<^verbatim>\<open>addr % 1\<close>, which is 0
  for every integer: the odd byte 0x55 is decoded as a write to address 0x2A, and from
  AddressPhase the loop goes on to the write phase.
\<close>

theorem odd_address_byte_decoded_as_write:
  "decode_addr (unat (0x55 :: byte)) = (True, 0x2A) \<and>
   step d AddressPhase (Bytes [0x55, 5]) s = (WritePhase 0x2A 5, s)"
  by (simp add: decode_addr_def)

section \<open>Frames\<close>

text \<open>
  C2. The claim: a Read frame of length N issues one I2C read of N bytes and writes the N
  returned bytes to the serial line. On the input \<^verbatim>\<open>S 0x55 0x05 S\<close> (a Read frame for
  address 0x2A, five bytes) the code takes the write branch, since \<^verbatim>\<open>write\<close> is always
  true: it asks the serial line for six bytes, gets the one that is there, and issues an
  I2C write of no bytes. No I2C read is issued and nothing is written to the serial line.
  The read path could not serve the frame either: \<^verbatim>\<open>FtdiI2C.read\<close> returns \<^verbatim>\<open>None\<close>
  without calling the DLL.
\<close>

theorem read_frame_becomes_empty_write:
  "run dll_ok Idle [Bytes [0x53], Bytes [0x55, 5], Bytes [0x53]] (init h) =
     (Idle, \<lparr>hi2c = h, next_char = Some 0x53,
             effects = [DeviceWrite h 0x2A 0 [] (write_options True True)]\<rparr>) \<and>
   FtdiI2C_read h 0x2A 5 False = None"
  by (simp add: init_def decode_addr_def FtdiI2C_write_def write_device_def dll_ok_def
      check_ftdi_status_def FtdiI2C_read_def)

text \<open>
  C3. The claim: a Write frame closed by \<^verbatim>\<open>'S'\<close> is written with \<^verbatim>\<open>stop=False\<close> and
  the loop goes back to AddressPhase. On the input \<^verbatim>\<open>S 0x54 0x02 0x00 0x00 S\<close> the
  code passes \<^verbatim>\<open>stop = (next_char == ord('S'))\<close>, which is true, and then leaves the
  inner loop: the write carries the stop flag and the next read is the idle one.
\<close>

theorem write_closed_by_S_stops_and_goes_idle:
  "run dll_ok Idle [Bytes [0x53], Bytes [0x54, 2], Bytes [0, 0, 0x53]] (init h) =
     (Idle, \<lparr>hi2c = h, next_char = Some 0x53,
             effects = [DeviceWrite h 0x2A 2 [0, 0] (write_options True True)]\<rparr>)"
  by (simp add: init_def decode_addr_def FtdiI2C_write_def write_device_def dll_ok_def
      check_ftdi_status_def)

text \<open>
  C4. The claim: after the I2C operation a terminator other than \<^verbatim>\<open>'S'\<close> leads to Idle
  and the terminator \<^verbatim>\<open>'S'\<close> leads back to AddressPhase. The code does the opposite:
  the \<^verbatim>\<open>break\<close> of line 123 is taken when the terminator is \<^verbatim>\<open>'S'\<close>.
\<close>

theorem terminator_branches_are_swapped:
  "fst (step dll_ok (WritePhase addr len) (Bytes [0x50]) s) = AddressPhase \<and>
   fst (step dll_ok (WritePhase addr len) (Bytes [0x53]) s) = Idle"
  by (simp add: FtdiI2C_write_def write_device_def dll_ok_def check_ftdi_status_def)

text \<open>
  C5. The claim: when the AddressPhase read times out, no I2C call is made and the loop is
  back in Idle, so that the next \<^verbatim>\<open>'S'\<close> starts a frame. A read of two bytes that
  times out returns no byte or one byte; the unpacking of line 90 raises ValueError, and
  the clause of line 93 turns it into a TypeError that nothing catches. No I2C call is
  made, but the loop has ended: the \<^verbatim>\<open>'S'\<close> that follows is never read.
\<close>

theorem address_timeout_ends_loop:
  "run d Idle [Bytes [0x53], Bytes [], Bytes [0x53]] (init h) = (Crashed TypeError, init h) \<and>
   run d Idle [Bytes [0x53], Bytes [0x54], Bytes [0x53]] (init h) = (Crashed TypeError, init h)"
  by simp

section \<open>Failures and shutdown\<close>

text \<open>
  C6. The claim: a failure of the I2C transport aborts only the frame; the engine reports
  it, echoes nothing and returns to Idle. The loop has no handler for FtdiError or
  AssertionError: the failure of the write after \<^verbatim>\<open>S 0x54 0x00 P\<close> leaves the loop,
  and the \<^verbatim>\<open>'S'\<close> that follows is never read.
\<close>

theorem i2c_failure_ends_engine:
  "run (dll_fail 2 0) Idle [Bytes [0x53], Bytes [0x54, 0], Bytes [0x50], Bytes [0x53]] (init 1) =
     (Crashed (FtdiError 2),
      \<lparr>hi2c = 1, next_char = Some 0x50,
       effects = [DeviceWrite 1 0x2A 0 [] (write_options True False)]\<rparr>)"
  by (simp add: init_def decode_addr_def FtdiI2C_write_def write_device_def dll_fail_def
      check_ftdi_status_def)

text \<open>
  C6, as the code has it: when the I2C write of a frame fails (a status other than
  \<^verbatim>\<open>FT_OK\<close>, or a transfer count other than the payload length), the exception leaves
  the loop whatever input follows; the frame's only effect is the DLL call that failed,
  so nothing is written to the serial line.
\<close>

theorem i2c_write_failure_leaves_loop:
  assumes "bs \<noteq> []"
    and "I2C_DeviceWrite d (effects s) (hi2c s) addr (length (butlast bs)) (butlast bs)
           (write_options True (unat (last bs) = 0x53)) = (status, k)"
    and "status \<noteq> 0 \<or> k \<noteq> length (butlast bs)"
  shows "\<exists>e. e \<in> {FtdiError status, ValueError, AssertionError} \<and>
           run d (WritePhase addr len) (Bytes bs # rest) s =
             (Crashed e,
              s\<lparr>next_char := Some (unat (last bs)),
                effects := effects s @
                  [DeviceWrite (hi2c s) addr (length (butlast bs)) (butlast bs)
                     (write_options True (unat (last bs) = 0x53))]\<rparr>)"
proof -
  let ?stop = "unat (last bs) = 0x53"
  let ?tr = "effects s @ [DeviceWrite (hi2c s) addr (length (butlast bs)) (butlast bs)
                     (write_options True ?stop)]"
  obtain e where e: "fst (write_device d (hi2c s) addr (butlast bs) True ?stop (effects s)) = Inl e"
    and mem: "e \<in> {FtdiError status, ValueError, AssertionError}"
    using write_device_fails [OF assms(2) assms(3)] by blast
  have wd: "write_device d (hi2c s) addr (butlast bs) True ?stop (effects s) = (Inl e, ?tr)"
    using e write_device_effects [of d "hi2c s" addr "butlast bs" True ?stop "effects s"]
    by (simp add: prod_eq_iff)
  have "step d (WritePhase addr len) (Bytes bs) s =
      (Crashed e, s\<lparr>next_char := Some (unat (last bs)), effects := ?tr\<rparr>)"
  proof (cases ?stop)
    case True
    with wd assms(1) show ?thesis by (simp add: FtdiI2C_write_def)
  next
    case False
    with wd assms(1) show ?thesis by (simp add: FtdiI2C_write_def)
  qed
  then show ?thesis using mem by (simp add: run_halted)
qed

theorem i2c_write_failure_leaves_loop_witness:
  "\<exists>e. e \<in> {FtdiError 2, ValueError, AssertionError} \<and>
     run (dll_fail 2 0) (WritePhase 0x2A 0) [Bytes [0x50], Bytes [0x53]] (init 1) =
       (Crashed e, \<lparr>hi2c = 1, next_char = Some 0x50,
                    effects = [DeviceWrite 1 0x2A 0 [] (write_options True False)]\<rparr>)"
  using i2c_write_failure_leaves_loop [of "[0x50]" "dll_fail 2 0" "init 1" "0x2A" 2 0 0 "[Bytes [0x53]]"]
  by (simp add: dll_fail_def init_def)

text \<open>
  C7. The claim: a byte other than \<^verbatim>\<open>'S'\<close> read in Idle is logged without failing and
  the loop stays in Idle. The message of line 125 formats \<^verbatim>\<open>next_char\<close>, not the byte
  just read: before the first write frame that local is unbound and the loop dies with
  UnboundLocalError; afterwards the message shows the terminator of the last write
  frame.
\<close>

theorem idle_byte_raises_unbound_local:
  "run d Idle [Bytes [0x41]] (init h) = (Crashed UnboundLocalError, init h) \<and>
   run dll_ok Idle [Bytes [0x53], Bytes [0x54, 0], Bytes [0x53], Bytes [0x41]] (init h) =
     (Idle, \<lparr>hi2c = h, next_char = Some 0x53,
             effects = [DeviceWrite h 0x2A 0 [] (write_options True True), LogDebug 0x53]\<rparr>)"
  by (simp add: init_def decode_addr_def FtdiI2C_write_def write_device_def dll_ok_def
      check_ftdi_status_def)




section \<open>Payload and terminator\<close>

text \<open>
  C9. When the read of the write phase returns the \<open>length + 1\<close> bytes it asked for,
  the buffer given to the I2C write is the first \<open>length\<close> of them, its size is
  \<open>length\<close>, and the last byte is kept as \<^verbatim>\<open>next_char\<close> and decides the stop flag
  only.
\<close>

theorem write_payload_is_first_length_bytes:
  assumes "length bs = read_size (WritePhase addr len)"
  shows "\<exists>p. step d (WritePhase addr len) (Bytes bs) s =
           (p, s\<lparr>next_char := Some (unat (bs ! len)),
                 effects := effects s @
                   [DeviceWrite (hi2c s) addr len (take len bs)
                      (write_options True (unat (bs ! len) = 0x53))]\<rparr>)"
proof -
  from assms have len: "length bs = len + 1" by simp
  then have ne: "bs \<noteq> []" by auto
  have bl: "butlast bs = take len bs" using len by (simp add: butlast_conv_take)
  have la: "last bs = bs ! len" using len ne by (simp add: last_conv_nth)
  let ?stop = "unat (bs ! len) = 0x53"
  obtain r where wd: "write_device d (hi2c s) addr (take len bs) True ?stop (effects s) =
      (r, effects s @ [DeviceWrite (hi2c s) addr len (take len bs) (write_options True ?stop)])"
    using write_device_effects [of d "hi2c s" addr "take len bs" True ?stop "effects s"] len
    by (cases "write_device d (hi2c s) addr (take len bs) True ?stop (effects s)") simp
  show ?thesis
  proof (cases ?stop)
    case True
    with wd ne bl la show ?thesis by (cases r) (simp_all add: FtdiI2C_write_def)
  next
    case False
    with wd ne bl la show ?thesis by (cases r) (simp_all add: FtdiI2C_write_def)
  qed
qed

theorem write_payload_is_first_length_bytes_witness:
  "length [0x11, 0x22, 0x50 :: byte] = read_size (WritePhase 0x2A 2) \<and>
   (\<exists>p. step dll_ok (WritePhase 0x2A 2) (Bytes [0x11, 0x22, 0x50]) (init 1) =
      (p, \<lparr>hi2c = 1, next_char = Some 0x50,
           effects = [DeviceWrite 1 0x2A 2 [0x11, 0x22] (write_options True False)]\<rparr>))"
  using write_payload_is_first_length_bytes
      [where bs = "[0x11, 0x22, 0x50]" and len = 2 and d = dll_ok and addr = "0x2A" and s = "init 1"]
  by (simp add: init_def)

section \<open>read\_device\<close>

text \<open>
  C10. A call of \<^verbatim>\<open>read_device\<close> that passes its assertion returns the buffer cut at
  its first NUL byte: the result is never longer than \<open>bytes_to_read\<close>, and it has that
  length exactly when the buffer holds no zero byte.
\<close>

theorem read_device_truncates_at_NUL:
  assumes "read_device rd h a n start stop = Inr res"
    and "rd h a n (read_options start stop) = (status, k, written)"
  shows "res = takeWhile (\<lambda>b. b \<noteq> 0) (store (replicate n 0) written) \<and>
         length res \<le> n \<and>
         (length res = n \<longleftrightarrow> 0 \<notin> set (store (replicate n 0) written)) \<and>
         (0 \<in> set (store (replicate n 0) written) \<longrightarrow> length res < n) \<and>
         (n \<le> length written \<longrightarrow> (length res = n \<longleftrightarrow> 0 \<notin> set (take n written)))"
proof -
  let ?buf = "store (replicate n 0) written"
  have len: "length ?buf = n" by (simp add: length_store)
  have res: "res = takeWhile (\<lambda>b. b \<noteq> 0) ?buf"
    using assms by (simp add: read_device_def c_char_p_value_def split: sum.splits if_splits)
  have le: "length res \<le> n" using len length_takeWhile_le [of "\<lambda>b. b \<noteq> 0" ?buf] res by simp
  have iff: "length res = n \<longleftrightarrow> 0 \<notin> set ?buf"
    using takeWhile_full_length [of "\<lambda>b. b \<noteq> 0" ?buf] len res by auto
  have full: "n \<le> length written \<Longrightarrow> ?buf = take n written"
    using store_full [of "replicate n 0" written] by simp
  show ?thesis
  proof (intro conjI impI)
    show "res = takeWhile (\<lambda>b. b \<noteq> 0) ?buf" by (rule res)
    show "length res \<le> n" by (rule le)
    show "length res = n \<longleftrightarrow> 0 \<notin> set ?buf" by (rule iff)
  next
    assume "0 \<in> set ?buf"
    with iff have "length res \<noteq> n" by simp
    with le show "length res < n" by simp
  next
    assume "n \<le> length written"
    then have "?buf = take n written" by (rule full)
    with iff show "length res = n \<longleftrightarrow> 0 \<notin> set (take n written)" by simp
  qed
qed

theorem read_device_truncates_at_NUL_witness:
  "read_device (\<lambda>h a n opts. (0, 3, [0x41, 0, 0x42])) 1 0x2A 3 True True = Inr [0x41] \<and>
   (3 :: nat) \<le> length [0x41, 0, 0x42 :: byte] \<and> length [0x41 :: byte] < 3 \<and>
   (0 :: byte) \<in> set (store (replicate 3 0) [0x41, 0, 0x42])"
  using read_device_truncates_at_NUL [of "\<lambda>h a n opts. (0, 3, [0x41, 0, 0x42])" 1 "0x2A" 3 True True
      "[0x41]" 0 3 "[0x41, 0, 0x42]"]
  by (simp add: read_device_def check_ftdi_status_def store_def c_char_p_value_def)

end
